theory Spec2Isabelle
  imports Complex_Main "HOL-Library.AList" "HOL-Library.Sublist" "HOL-Library.Multiset"
begin

section \<open>JavaScript numbers and property lookup\<close>

text \<open>
  A JavaScript number is a finite value, one of the two infinities, or NaN. Finite values
  are taken as reals: the rounding of IEEE doubles and the sign of zero are left out.
\<close>

datatype jsnum = Fin real | PosInf | NegInf | NaN

fun js_div :: "jsnum \<Rightarrow> jsnum \<Rightarrow> jsnum" where
  "js_div NaN _ = NaN"
| "js_div _ NaN = NaN"
| "js_div (Fin a) (Fin b) =
     (if b = 0 then (if a = 0 then NaN else if 0 < a then PosInf else NegInf)
      else Fin (a / b))"
| "js_div (Fin a) PosInf = Fin 0"
| "js_div (Fin a) NegInf = Fin 0"
| "js_div PosInf (Fin b) = (if 0 \<le> b then PosInf else NegInf)"
| "js_div NegInf (Fin b) = (if 0 \<le> b then NegInf else PosInf)"
| "js_div PosInf PosInf = NaN"
| "js_div PosInf NegInf = NaN"
| "js_div NegInf PosInf = NaN"
| "js_div NegInf NegInf = NaN"

fun js_mul :: "jsnum \<Rightarrow> jsnum \<Rightarrow> jsnum" where
  "js_mul NaN _ = NaN"
| "js_mul _ NaN = NaN"
| "js_mul (Fin a) (Fin b) = Fin (a * b)"
| "js_mul (Fin a) PosInf = (if a = 0 then NaN else if 0 < a then PosInf else NegInf)"
| "js_mul (Fin a) NegInf = (if a = 0 then NaN else if 0 < a then NegInf else PosInf)"
| "js_mul PosInf (Fin b) = (if b = 0 then NaN else if 0 < b then PosInf else NegInf)"
| "js_mul NegInf (Fin b) = (if b = 0 then NaN else if 0 < b then NegInf else PosInf)"
| "js_mul PosInf PosInf = PosInf"
| "js_mul PosInf NegInf = NegInf"
| "js_mul NegInf PosInf = NegInf"
| "js_mul NegInf NegInf = PosInf"

text \<open>\<^verbatim>\<open>Math.min(a, b)\<close>: NaN when either argument is NaN.\<close>

fun math_min :: "jsnum \<Rightarrow> jsnum \<Rightarrow> jsnum" where
  "math_min NaN _ = NaN"
| "math_min _ NaN = NaN"
| "math_min NegInf _ = NegInf"
| "math_min _ NegInf = NegInf"
| "math_min PosInf b = b"
| "math_min a PosInf = a"
| "math_min (Fin a) (Fin b) = Fin (min a b)"

text \<open>The global \<^verbatim>\<open>isNaN\<close> and \<^verbatim>\<open>isFinite\<close>, on a value that already is a number.\<close>

fun isNaN :: "jsnum \<Rightarrow> bool" where
  "isNaN NaN = True"
| "isNaN _ = False"

fun isFinite :: "jsnum \<Rightarrow> bool" where
  "isFinite (Fin _) = True"
| "isFinite _ = False"

text \<open>
  The two scale tables are object literals, so \<^verbatim>\<open>maxValues[key]\<close> looks beyond the
  listed properties: a key that names a member of \<^verbatim>\<open>Object.prototype\<close> yields that
  member (a function, or the prototype object for \<^verbatim>\<open>__proto__\<close>), which is truthy and
  converts to NaN in arithmetic. Any other unlisted key yields \<^verbatim>\<open>undefined\<close>.
\<close>

definition object_prototype_keys :: "string list" where
  "object_prototype_keys =
     [''constructor'', ''hasOwnProperty'', ''isPrototypeOf'', ''propertyIsEnumerable'',
      ''toLocaleString'', ''toString'', ''valueOf'', ''__proto__'',
      ''__defineGetter__'', ''__defineSetter__'', ''__lookupGetter__'', ''__lookupSetter__'']"

text \<open>
  \<^verbatim>\<open>maxValues[key] || 100\<close>, as the number the arithmetic after it sees: a listed
  maximum unless it is falsy (zero), NaN for an inherited member, 100 otherwise.
\<close>

definition max_or_100 :: "(string \<times> real) list \<Rightarrow> string \<Rightarrow> jsnum" where
  "max_or_100 table key =
     (case map_of table key of
        Some m \<Rightarrow> (if m = 0 then Fin 100 else Fin m)
      | None \<Rightarrow> (if key \<in> set object_prototype_keys then NaN else Fin 100))"

section \<open>Normalizer\<close>

text \<open>The table of \<^verbatim>\<open>normalizeFeatureValue\<close>, in the order the source lists it.\<close>

definition maxValues :: "(string \<times> real) list" where
  "maxValues =
     [(''Power_On_Hours'', 60000), (''Total_TBW_TB'', 1000), (''Total_TBR_TB'', 800),
      (''Temperature_C'', 90), (''Percent_Life_Used'', 150), (''Media_Errors'', 10),
      (''Unsafe_Shutdowns'', 10), (''CRC_Errors'', 5), (''Read_Error_Rate'', 20),
      (''Write_Error_Rate'', 15)]"

text \<open>
  \<^verbatim>\<open>featureDefaults\<close> is the object the backend sends, kept as the list of its entries
  in \<^verbatim>\<open>Object.keys\<close> order. \<^verbatim>\<open>featureNames[index]\<close> is \<^verbatim>\<open>undefined\<close> past the end,
  and \<^verbatim>\<open>undefined\<close> as a property key is the string \<^verbatim>\<open>"undefined"\<close>.
\<close>

definition featureNameAt :: "(string \<times> 'v) list \<Rightarrow> nat \<Rightarrow> string" where
  "featureNameAt featureDefaults index =
     (if index < length featureDefaults then fst (featureDefaults ! index) else ''undefined'')"

definition normalizeFeatureValue :: "(string \<times> 'v) list \<Rightarrow> jsnum \<Rightarrow> nat \<Rightarrow> jsnum" where
  "normalizeFeatureValue featureDefaults v index =
     (let featureName = featureNameAt featureDefaults index;
          maxValue = max_or_100 maxValues featureName
      in math_min (js_mul (js_div v maxValue) (Fin 100)) (Fin 100))"

section \<open>Strings and label formatting\<close>

text \<open>
  A string is its list of code units. The source's literals and the catalog's names stay
  below U+0100, so a code unit is a \<^typ>\<open>char\<close>; the degree sign is U+00B0.
\<close>

definition degree :: char where
  "degree = CHR 0xB0"

text \<open>The regular-expression classes \<^verbatim>\<open>\s\<close> and \<^verbatim>\<open>\w\<close>, below U+0100.\<close>

definition is_space :: "char \<Rightarrow> bool" where
  "is_space c = (of_char c \<in> {9, 10, 11, 12, 13, 32, 160 :: nat})"

definition is_word :: "char \<Rightarrow> bool" where
  "is_word c =
     (let n = of_char c :: nat
      in (48 \<le> n \<and> n \<le> 57) \<or> (65 \<le> n \<and> n \<le> 90) \<or> n = 95 \<or> (97 \<le> n \<and> n \<le> 122))"

text \<open>
  \<^verbatim>\<open>toUpperCase\<close> on one \<^verbatim>\<open>\w\<close> character, and \<^verbatim>\<open>toLowerCase\<close> on one code unit: the
  upper-case letters below U+0100 are A to Z and U+00C0 to U+00DE without U+00D7.
\<close>

definition toUpperCase :: "char \<Rightarrow> char" where
  "toUpperCase c =
     (let n = of_char c :: nat in if 97 \<le> n \<and> n \<le> 122 then char_of (n - 32) else c)"

definition is_upper :: "char \<Rightarrow> bool" where
  "is_upper c =
     (let n = of_char c :: nat
      in (65 \<le> n \<and> n \<le> 90) \<or> (192 \<le> n \<and> n \<le> 222 \<and> n \<noteq> 215))"

definition toLowerCase :: "char \<Rightarrow> char" where
  "toLowerCase c = (if is_upper c then char_of (of_char c + 32 :: nat) else c)"

text \<open>\<^verbatim>\<open>s.replace(pat, rep)\<close> with a string pattern: the first occurrence only.\<close>

fun replace_first :: "string \<Rightarrow> string \<Rightarrow> string \<Rightarrow> string" where
  "replace_first pat rep [] = (if pat = [] then rep else [])"
| "replace_first pat rep (c # cs) =
     (if prefix pat (c # cs) then rep @ drop (length pat) (c # cs)
      else c # replace_first pat rep cs)"

text \<open>
  \<^verbatim>\<open>replace(/\b\w/g, l => l.toUpperCase())\<close>: a word character is at a boundary when
  the character before it (if any) is not a word character; the flag carries that.
\<close>

fun capitalize :: "bool \<Rightarrow> string \<Rightarrow> string" where
  "capitalize prev [] = []"
| "capitalize prev (c # cs) =
     (if is_word c \<and> \<not> prev then toUpperCase c else c) # capitalize (is_word c) cs"

text \<open>
  \<^verbatim>\<open>replace(/ C(?=\s|$)/g, ' (deg C)')\<close>: a blank and a \<^verbatim>\<open>C\<close> followed by white space or
  the end; the lookahead is not consumed, the scan goes on after the \<^verbatim>\<open>C\<close>.
\<close>

fun mark_celsius :: "string \<Rightarrow> string" where
  "mark_celsius (a # b # cs) =
     (if a = CHR '' '' \<and> b = CHR ''C'' \<and> (case cs of [] \<Rightarrow> True | d # _ \<Rightarrow> is_space d)
      then [CHR '' '', CHR ''('', degree, CHR ''C'', CHR '')''] @ mark_celsius cs
      else a # mark_celsius (b # cs))"
| "mark_celsius cs = cs"

definition formatLabel :: "string \<Rightarrow> string" where
  "formatLabel t =
     (let formatted = map (\<lambda>c. if c = CHR ''_'' then CHR '' '' else c) t;
          formatted = capitalize False formatted;
          formatted = replace_first ''Tb'' ''TB'' formatted;
          formatted = mark_celsius formatted
      in formatted)"

text \<open>
  The inverse path of \<^verbatim>\<open>getOriginalValueFromNormalized\<close>.
  \<^verbatim>\<open>replace(/\s*\(deg C\)/g, ' C')\<close>: a match starts where the white space from that
  place on is followed at once by the parenthesised unit (a shorter run of white space
  would be followed by white space, not by the parenthesis).
\<close>

definition paren_celsius :: string where
  "paren_celsius = [CHR ''('', degree, CHR ''C'', CHR '')'']"

function strip_celsius :: "string \<Rightarrow> string" where
  "strip_celsius s =
     (if prefix paren_celsius (dropWhile is_space s)
      then '' C'' @ strip_celsius (drop 4 (dropWhile is_space s))
      else (case s of [] \<Rightarrow> [] | c # cs \<Rightarrow> c # strip_celsius cs))"
  by pat_completeness auto
termination
proof (relation "measure length")
  show "wf (measure length)" by simp
next
  fix s :: string
  assume p: "prefix paren_celsius (dropWhile is_space s)"
  then have "4 \<le> length (dropWhile is_space s)"
    using prefix_length_le [OF p] by (simp add: paren_celsius_def)
  moreover have "length (dropWhile is_space s) \<le> length s"
    by (rule length_dropWhile_le)
  ultimately show "(drop 4 (dropWhile is_space s), s) \<in> measure length"
    by simp
next
  fix s :: string and c cs
  assume "s = c # cs"
  then show "(cs, s) \<in> measure length" by simp
qed

text \<open>\<^verbatim>\<open>replace(/\s+/g, '_')\<close>: every maximal run of white space becomes one underscore.\<close>

function squash_spaces :: "string \<Rightarrow> string" where
  "squash_spaces [] = []"
| "squash_spaces (c # cs) =
     (if is_space c then CHR ''_'' # squash_spaces (dropWhile is_space cs)
      else c # squash_spaces cs)"
  by pat_completeness auto
termination
  by (relation "measure length") (auto simp: le_imp_less_Suc length_dropWhile_le)

definition labelToFeatureName :: "string \<Rightarrow> string" where
  "labelToFeatureName featureLabel =
     replace_first ''tbr_tb'' ''tbr_tb''
       (replace_first ''tbw_tb'' ''tbw_tb''
          (map toLowerCase (squash_spaces (strip_celsius featureLabel))))"

text \<open>The table of \<^verbatim>\<open>getOriginalValueFromNormalized\<close>, keyed in lower case.\<close>

definition maxValuesLower :: "(string \<times> real) list" where
  "maxValuesLower =
     [(''power_on_hours'', 60000), (''total_tbw_tb'', 1000), (''total_tbr_tb'', 800),
      (''temperature_c'', 90), (''percent_life_used'', 150), (''media_errors'', 10),
      (''unsafe_shutdowns'', 10), (''crc_errors'', 5), (''read_error_rate'', 20),
      (''write_error_rate'', 15)]"

text \<open>
  \<^verbatim>\<open>x.toFixed(d)\<close> returns text. For a finite \<open>x\<close> below \<open>10^21\<close> in size it is the
  decimal numeral of \<open>n / 10^d\<close> with \<open>d\<close> fraction digits, where \<open>n\<close> is the integer nearest
  to \<open>|x| * 10^d\<close> (the larger one on a tie), with a minus sign when \<open>x < 0\<close>:
  \<open>Fixed neg n d\<close>. Otherwise it is the text of the number itself: \<open>Plain x\<close>.
\<close>

datatype numtext = Fixed bool nat nat | Plain jsnum

fun toFixed :: "nat \<Rightarrow> jsnum \<Rightarrow> numtext" where
  "toFixed d (Fin x) =
     (if 10 ^ 21 \<le> \<bar>x\<bar> then Plain (Fin x)
      else Fixed (x < 0) (nat \<lfloor>\<bar>x\<bar> * 10 ^ d + 1 / 2\<rfloor>) d)"
| "toFixed d x = Plain x"

text \<open>The number a fixed-point text denotes.\<close>

fun numtext_value :: "numtext \<Rightarrow> jsnum" where
  "numtext_value (Fixed neg n d) = Fin ((if neg then - 1 else 1) * real n / 10 ^ d)"
| "numtext_value (Plain x) = x"

definition getOriginalValueFromNormalized :: "jsnum \<Rightarrow> string \<Rightarrow> numtext" where
  "getOriginalValueFromNormalized normalizedValue featureLabel =
     (let featureName = labelToFeatureName featureLabel;
          maxValue = max_or_100 maxValuesLower featureName
      in toFixed 2 (js_mul (js_div normalizedValue (Fin 100)) maxValue))"

section \<open>Input collection and validation\<close>

text \<open>
  \<^verbatim>\<open>collectInputData\<close> reads every input element of the form. An element is taken as
  the pair of its id and of \<^verbatim>\<open>parseFloat(input.value)\<close>, the built-in's result: NaN for
  text with no numeric prefix. The object built by \<^verbatim>\<open>inputs[input.id] = ...\<close> is the
  list of its entries in insertion order (ids are feature names, not array indices); a
  repeated id keeps its place and takes the later value.
\<close>

definition collectInputData :: "(string \<times> jsnum) list \<Rightarrow> (string \<times> jsnum) list" where
  "collectInputData inputElements =
     fold (\<lambda>(ident, v) inputs. AList.update ident (if isNaN v then Fin 0 else v) inputs)
       inputElements []"

text \<open>
  \<^verbatim>\<open>validateInputs\<close>: every value is a number (true of every \<^typ>\<open>jsnum\<close>), not NaN, and
  finite. There is no test of the sign.
\<close>

definition validateInputs :: "(string \<times> jsnum) list \<Rightarrow> bool" where
  "validateInputs data = list_all (\<lambda>v. \<not> isNaN v \<and> isFinite v) (map snd data)"

section \<open>Risk summary\<close>

record summary =
  overall_risk :: real
  status :: string
  predictions :: "(string \<times> real) list"
  recommendation :: "string list"

datatype icon = ExclamationTriangle | CheckCircle

datatype status_class = StatusHealthy | StatusWarning | StatusDanger

datatype risk_label = Low | Medium | High

record risk_meter =
  meter_type :: string
  meter_width :: real
  meter_value :: numtext
  meter_label :: risk_label

record summary_view =
  status_icon :: icon
  status_text :: string
  status_className :: status_class
  risk_meters :: "risk_meter list"
  recommendations :: "string list"

text \<open>
  The class of the status element: set to healthy, then overwritten by two tests in turn.
\<close>

definition statusClassName :: "real \<Rightarrow> status_class" where
  "statusClassName risk =
     (let className = StatusHealthy;
          className = (if risk > 50 then StatusWarning else className);
          className = (if risk > 70 then StatusDanger else className)
      in className)"

definition statusIcon :: "real \<Rightarrow> icon" where
  "statusIcon risk = (if risk \<ge> 50 then ExclamationTriangle else CheckCircle)"

definition riskMeter :: "string \<times> real \<Rightarrow> risk_meter" where
  "riskMeter entry =
     (case entry of (type, risk) \<Rightarrow>
        \<lparr>meter_type = type, meter_width = risk, meter_value = toFixed 1 (Fin risk),
         meter_label = (if risk < 50 then Low else if risk < 70 then Medium else High)\<rparr>)"

definition displaySummary :: "summary \<Rightarrow> summary_view" where
  "displaySummary s =
     \<lparr>status_icon = statusIcon (overall_risk s),
      status_text = status s,
      status_className = statusClassName (overall_risk s),
      risk_meters = map riskMeter (predictions s),
      recommendations = recommendation s\<rparr>"

text \<open>
  Modelled from the spec: the summary itself is computed by the backend, which is not
  among the sources; the frontend only receives \<^verbatim>\<open>summary.overall_risk\<close>. The spec
  gives \<^verbatim>\<open>overall_risk = max(risk_percentage across the four models)\<close>, the models
  taken in the order wearout, thermal, power, controller.
\<close>

definition spec_overall_risk :: "real \<Rightarrow> real \<Rightarrow> real \<Rightarrow> real \<Rightarrow> real" where
  "spec_overall_risk wearout_risk thermal_risk power_risk controller_risk =
     max (max (max wearout_risk thermal_risk) power_risk) controller_risk"

section \<open>Contribution ranking\<close>

text \<open>
  \<^verbatim>\<open>Array.prototype.sort\<close> with a comparison function is stable: an element goes in
  front of the first one it does not compare greater than, and equal elements keep their
  order. Insertion from the right end gives exactly that order.
\<close>

fun js_insert :: "('a \<Rightarrow> 'a \<Rightarrow> real) \<Rightarrow> 'a \<Rightarrow> 'a list \<Rightarrow> 'a list" where
  "js_insert cmp x [] = [x]"
| "js_insert cmp x (y # ys) = (if cmp x y \<le> 0 then x # y # ys else y # js_insert cmp x ys)"

definition js_sort :: "('a \<Rightarrow> 'a \<Rightarrow> real) \<Rightarrow> 'a list \<Rightarrow> 'a list" where
  "js_sort cmp xs = foldr (js_insert cmp) xs []"

datatype color = Blue | Orange | Red | Green

record contribution_item =
  contribution_name :: string
  contribution_value :: numtext
  bar_width :: real
  bar_color :: color

datatype contributions_view = NoDataAvailable | Items "contribution_item list"

text \<open>
  The contributions object is the list of its entries in \<^verbatim>\<open>Object.entries\<close> order (the
  order the backend's JSON lists them); \<open>None\<close> stands for a missing one.
\<close>

definition sortedContributions :: "(string \<times> real) list \<Rightarrow> (string \<times> real) list" where
  "sortedContributions contributions = take 5 (js_sort (\<lambda>a b. snd b - snd a) contributions)"

text \<open>
  Stated from the spec's words, to set against the code (which never consults the
  catalog): entries of equal percentage stand in the catalog's order of features.
\<close>

fun position :: "'a list \<Rightarrow> 'a \<Rightarrow> nat" where
  "position [] x = 0"
| "position (y # ys) x = (if x = y then 0 else Suc (position ys x))"

definition ties_in_catalog_order :: "string list \<Rightarrow> (string \<times> real) list \<Rightarrow> bool" where
  "ties_in_catalog_order catalog ranked =
     sorted_wrt (\<lambda>a b. snd a \<noteq> snd b \<or> position catalog (fst a) < position catalog (fst b))
       ranked"

definition contributionItem :: "string \<times> real \<Rightarrow> contribution_item" where
  "contributionItem entry =
     (case entry of (feature, percentage) \<Rightarrow>
        (let formattedFeature = formatLabel feature;
             barWidth = min percentage 100;
             barColor = Blue;
             barColor = (if percentage > 30 then Orange else barColor);
             barColor = (if percentage > 60 then Red else barColor)
         in \<lparr>contribution_name = formattedFeature, contribution_value = toFixed 1 (Fin percentage),
             bar_width = barWidth, bar_color = barColor\<rparr>))"

definition displayTopContributions :: "(string \<times> real) list option \<Rightarrow> contributions_view" where
  "displayTopContributions contributions =
     (case contributions of
        None \<Rightarrow> NoDataAvailable
      | Some entries \<Rightarrow>
          (if length entries = 0 then NoDataAvailable
           else Items (map contributionItem (sortedContributions entries))))"

section \<open>Radar charts\<close>

record chart =
  chart_labels :: "string list"
  chart_data :: "jsnum list"

definition chartIds :: "string list" where
  "chartIds = [''wearoutRadar'', ''thermalRadar'', ''powerRadar'', ''controllerRadar'']"

text \<open>
  \<^verbatim>\<open>initializeRadarCharts\<close>: one chart for every id whose canvas is in the page
  (\<open>present\<close>), stored in \<^verbatim>\<open>radarCharts\<close>. Every default value is normalized with the
  index 0.
\<close>

definition initializeRadarCharts ::
    "(string \<Rightarrow> bool) \<Rightarrow> (string \<times> jsnum) list \<Rightarrow> (string \<times> chart) list \<Rightarrow> (string \<times> chart) list" where
  "initializeRadarCharts present featureDefaults radarCharts =
     fold (\<lambda>ident charts.
             if \<not> present ident then charts
             else AList.update ident
                    \<lparr>chart_labels = map (\<lambda>f. formatLabel f) (map fst featureDefaults),
                     chart_data = map (\<lambda>v. normalizeFeatureValue featureDefaults v 0)
                                    (map snd featureDefaults)\<rparr> charts)
       chartIds radarCharts"

text \<open>\<^verbatim>\<open>updateRadarChart\<close>: the i-th input value is normalized with the index i.\<close>

definition updateRadarChart ::
    "(string \<times> jsnum) list \<Rightarrow> string \<Rightarrow> (string \<times> jsnum) list \<Rightarrow> (string \<times> chart) list
       \<Rightarrow> (string \<times> chart) list" where
  "updateRadarChart featureDefaults type inputData radarCharts =
     (let chartId = type @ ''Radar''
      in case map_of radarCharts chartId of
           None \<Rightarrow> radarCharts
         | Some ch \<Rightarrow>
             (let normalizedValues =
                    map (\<lambda>(v, index). normalizeFeatureValue featureDefaults v index)
                      (zip (map snd inputData) [0 ..< length inputData])
              in AList.update chartId (ch\<lparr>chart_data := normalizedValues\<rparr>) radarCharts))"

definition modelTypes :: "string list" where
  "modelTypes = [''wearout'', ''thermal'', ''power'', ''controller'']"

text \<open>The part of \<^verbatim>\<open>resetForm\<close> that resets the radar charts, again with the index 0.\<close>

definition resetForm :: "(string \<times> jsnum) list \<Rightarrow> (string \<times> chart) list \<Rightarrow> (string \<times> chart) list" where
  "resetForm featureDefaults radarCharts =
     fold (\<lambda>type charts.
             case map_of charts (type @ ''Radar'') of
               None \<Rightarrow> charts
             | Some ch \<Rightarrow>
                 AList.update (type @ ''Radar'')
                   (ch\<lparr>chart_data := map (\<lambda>v. normalizeFeatureValue featureDefaults v 0)
                                        (map snd featureDefaults)\<rparr>) charts)
       modelTypes radarCharts"

section \<open>The prediction pipeline\<close>

record model_result =
  risk_percentage :: "real option"
  contributions :: "(string \<times> real) list option"

record results =
  res_summary :: summary
  res_wearout :: model_result
  res_thermal :: model_result
  res_power :: model_result
  res_controller :: model_result

record prediction_view =
  risk_value :: numtext
  meter_fill :: real
  needle_angle :: real
  value_color :: color
  top_contributions :: contributions_view

text \<open>\<^verbatim>\<open>data.risk_percentage || 0\<close>: zero for a missing or zero percentage.\<close>

definition riskPercentageOf :: "model_result \<Rightarrow> real" where
  "riskPercentageOf d = (case risk_percentage d of None \<Rightarrow> 0 | Some r \<Rightarrow> r)"

definition speedMeterColor :: "real \<Rightarrow> color" where
  "speedMeterColor riskPercentage =
     (if riskPercentage < 30 then Green else if riskPercentage < 70 then Orange else Red)"

definition displayPrediction ::
    "(string \<times> jsnum) list \<Rightarrow> string \<Rightarrow> model_result \<Rightarrow> (string \<times> jsnum) list
       \<Rightarrow> (string \<times> chart) list \<Rightarrow> prediction_view \<times> (string \<times> chart) list" where
  "displayPrediction featureDefaults type d inputData radarCharts =
     (let riskPercentage = riskPercentageOf d
      in (\<lparr>risk_value = toFixed 1 (Fin riskPercentage),
           meter_fill = min riskPercentage 100,
           needle_angle = - 135 + (riskPercentage / 100) * (135 - (- 135)),
           value_color = speedMeterColor riskPercentage,
           top_contributions = displayTopContributions (contributions d)\<rparr>,
          updateRadarChart featureDefaults type inputData radarCharts))"

record display =
  shown_summary :: summary_view
  shown_wearout :: prediction_view
  shown_thermal :: prediction_view
  shown_power :: prediction_view
  shown_controller :: prediction_view

definition displayResults ::
    "(string \<times> jsnum) list \<Rightarrow> results \<Rightarrow> (string \<times> jsnum) list \<Rightarrow> (string \<times> chart) list
       \<Rightarrow> display \<times> (string \<times> chart) list" where
  "displayResults featureDefaults r inputData radarCharts =
     (let sv = displaySummary (res_summary r);
          (w, charts) = displayPrediction featureDefaults ''wearout'' (res_wearout r) inputData radarCharts;
          (t, charts) = displayPrediction featureDefaults ''thermal'' (res_thermal r) inputData charts;
          (p, charts) = displayPrediction featureDefaults ''power'' (res_power r) inputData charts;
          (c, charts) = displayPrediction featureDefaults ''controller'' (res_controller r) inputData charts
      in (\<lparr>shown_summary = sv, shown_wearout = w, shown_thermal = t, shown_power = p,
           shown_controller = c\<rparr>, charts))"

text \<open>
  \<^verbatim>\<open>predictAllFailures\<close>. The backend is a parameter: \<open>service payload\<close> is the results
  of a successful answer, or \<open>None\<close> for any failure of the request. The two messages of
  \<^verbatim>\<open>showError\<close> are the two errors; an error leaves the charts as they were.
\<close>

datatype error = InvalidInputs | PredictionFailed

definition tempThresholdPayload :: "jsnum option \<Rightarrow> (string \<times> jsnum) list \<Rightarrow> (string \<times> jsnum) list" where
  "tempThresholdPayload tempThreshold inputData =
     (case tempThreshold of
        None \<Rightarrow> inputData
      | Some t \<Rightarrow> (if isNaN t \<or> t = Fin 0 then inputData
                  else AList.update ''temp_threshold'' t inputData))"

definition predictAllFailures ::
    "(string \<times> jsnum) list \<Rightarrow> jsnum option \<Rightarrow> ((string \<times> jsnum) list \<Rightarrow> results option)
       \<Rightarrow> (string \<times> jsnum) list \<Rightarrow> (string \<times> chart) list
       \<Rightarrow> error + display \<times> (string \<times> chart) list" where
  "predictAllFailures featureDefaults tempThreshold service inputElements radarCharts =
     (let inputData = collectInputData inputElements
      in if \<not> validateInputs inputData then Inl InvalidInputs
         else (case service (tempThresholdPayload tempThreshold inputData) of
                 None \<Rightarrow> Inl PredictionFailed
               | Some r \<Rightarrow> Inr (displayResults featureDefaults r inputData radarCharts)))"

section \<open>Properties of the risk summary\<close>

text \<open>
  C1 (as the code has it). The class of the overall status is Danger above 70, Warning
  above 50 and up to 70, Healthy otherwise, both tests being strict: 49.9 and 50.0 are
  Healthy, 70.0 is Warning, 70.1 is Danger.
\<close>

theorem displaySummary_status_bands:
  "status_className (displaySummary s) =
     (if overall_risk s > 70 then StatusDanger
      else if overall_risk s > 50 then StatusWarning else StatusHealthy)
   \<and> statusClassName 49.9 = StatusHealthy
   \<and> statusClassName 50.0 = StatusHealthy
   \<and> statusClassName 70.0 = StatusWarning
   \<and> statusClassName 70.1 = StatusDanger"
  by (simp add: displaySummary_def statusClassName_def)

text \<open>
  C1 as stated fails at the boundary 50.0: the class there is Healthy, not Warning.
\<close>

theorem status_at_50_counterexample:
  "status_className (displaySummary \<lparr>overall_risk = 50.0, status = ''Warning'',
       predictions = [], recommendation = []\<rparr>) \<noteq> StatusWarning"
  by (simp add: displaySummary_def statusClassName_def)

text \<open>
  C6. The overall risk is the greatest of the four per-model risks: it is one of them, none
  of them exceeds it, and it is never below their average; risks 20, 72, 10, 30 give 72,
  where the average would be 33.
\<close>

theorem overall_risk_is_maximum:
  "spec_overall_risk w t p c = Max {w, t, p, c}
   \<and> spec_overall_risk w t p c \<in> {w, t, p, c}
   \<and> w \<le> spec_overall_risk w t p c \<and> t \<le> spec_overall_risk w t p c
   \<and> p \<le> spec_overall_risk w t p c \<and> c \<le> spec_overall_risk w t p c
   \<and> (w + t + p + c) / 4 \<le> spec_overall_risk w t p c
   \<and> spec_overall_risk 20 72 10 30 = 72"
proof -
  define r where "r = spec_overall_risk w t p c"
  have mx: "r = Max {w, t, p, c}"
    by (simp add: r_def spec_overall_risk_def max.commute max.left_commute)
  have mem: "r \<in> {w, t, p, c}"
    by (simp add: r_def spec_overall_risk_def max_def)
  have ub: "w \<le> r" "t \<le> r" "p \<le> r" "c \<le> r"
    by (simp_all add: r_def spec_overall_risk_def)
  have "w + t + p + c \<le> 4 * r"
    using ub by linarith
  then have av: "(w + t + p + c) / 4 \<le> r"
    by simp
  have ex: "spec_overall_risk 20 72 10 30 = 72"
    by (simp add: spec_overall_risk_def)
  show ?thesis
    using mx mem ub av ex unfolding r_def by blast
qed

text \<open>
  C7. The icon of the overall status depends on the overall risk alone: the check mark
  exactly below 50, the warning triangle exactly from 50 on, whatever the status text, the
  per-model risks and the recommendations are. At 50 the triangle is shown although the
  class of the status is still Healthy.
\<close>

theorem displaySummary_icon_threshold:
  "(status_icon (displaySummary s) = CheckCircle) = (overall_risk s < 50)
   \<and> (status_icon (displaySummary s) = ExclamationTriangle) = (overall_risk s \<ge> 50)
   \<and> status_icon (displaySummary (s\<lparr>status := txt, predictions := ps, recommendation := rs\<rparr>))
       = status_icon (displaySummary s)
   \<and> status_icon (displaySummary (s\<lparr>overall_risk := 50\<rparr>)) = ExclamationTriangle
   \<and> status_className (displaySummary (s\<lparr>overall_risk := 50\<rparr>)) = StatusHealthy"
  by (simp add: displaySummary_def statusIcon_def statusClassName_def not_less)

section \<open>Properties of the contribution ranking\<close>

text \<open>
  The comparison function of the ranking orders by falling percentage, so the stable sort
  of the source is the library's stable insertion sort on the negated percentage.
\<close>

lemma js_insert_insort_key:
  "js_insert (\<lambda>a b. snd b - snd a) x ys = insort_key (\<lambda>e. - snd e) x ys"
  by (induction ys) simp_all

lemma js_sort_sort_key:
  "js_sort (\<lambda>a b. snd b - snd a) xs = sort_key (\<lambda>e. - snd e) xs"
  by (induction xs) (simp_all add: js_sort_def js_insert_insort_key)

lemma js_sort_descending:
  "sorted_wrt (\<lambda>a b. snd a \<ge> snd b) (js_sort (\<lambda>a b. snd b - snd a) (xs :: ('k \<times> real) list))"
proof -
  have "sorted (map (\<lambda>e. - snd e) (sort_key (\<lambda>e. - snd e) xs))"
    by (rule sorted_sort_key)
  then show ?thesis
    by (simp add: sorted_map js_sort_sort_key)
qed

lemma js_sort_stable:
  "filter (\<lambda>e. snd e = p) (js_sort (\<lambda>a b. snd b - snd a) xs) = filter (\<lambda>e. snd e = p) xs"
  using sort_key_stable [of "\<lambda>e. - snd e" "- p" xs]
  by (simp add: js_sort_sort_key)

lemma filter_take_prefix: "prefix (filter P (take n xs)) (filter P xs)"
proof -
  have "filter P xs = filter P (take n xs) @ filter P (drop n xs)"
    by (metis append_take_drop_id filter_append)
  then show ?thesis by (simp add: prefix_def)
qed

text \<open>
  C3 (as the code has it). The ranking never has more than five entries (it has
  \<open>min 5 n\<close> for \<open>n\<close> contributions), it is in falling order of percentage, and it is the
  first five of a sorted rearrangement of all the entries. Entries of one percentage
  keep the order they have in the contributions object itself: the catalog is not
  consulted. So \<open>{A: 80, B: 80, C: 10}\<close> gives \<open>A, B, C\<close>, and \<open>{B: 80, A: 80, C: 10}\<close>
  gives \<open>B, A, C\<close>. A contributions object that is not empty is shown as these entries.
\<close>

theorem sortedContributions_ranking:
  "length (sortedContributions cs) = min 5 (length cs)
   \<and> length (sortedContributions cs) \<le> 5
   \<and> sorted_wrt (\<lambda>a b. snd a \<ge> snd b) (sortedContributions cs)
   \<and> prefix (filter (\<lambda>e. snd e = p) (sortedContributions cs)) (filter (\<lambda>e. snd e = p) cs)
   \<and> (\<exists>rest. mset (sortedContributions cs @ rest) = mset cs
         \<and> sorted_wrt (\<lambda>a b. snd a \<ge> snd b) (sortedContributions cs @ rest))
   \<and> displayTopContributions (Some (c # cs))
       = Items (map contributionItem (sortedContributions (c # cs)))
   \<and> sortedContributions [(''A'', 80), (''B'', 80), (''C'', 10)]
       = [(''A'', 80), (''B'', 80), (''C'', 10)]
   \<and> sortedContributions [(''B'', 80), (''A'', 80), (''C'', 10)]
       = [(''B'', 80), (''A'', 80), (''C'', 10)]"
proof -
  let ?s = "js_sort (\<lambda>a b. snd b - snd a) cs"
  have len: "length (sortedContributions cs) = min 5 (length cs)"
    by (simp add: sortedContributions_def js_sort_sort_key min.commute)
  have desc: "sorted_wrt (\<lambda>a b. snd a \<ge> snd b) (sortedContributions cs)"
    unfolding sortedContributions_def by (rule sorted_wrt_take [OF js_sort_descending])
  have "prefix (filter (\<lambda>e. snd e = p) (take 5 ?s)) (filter (\<lambda>e. snd e = p) ?s)"
    by (rule filter_take_prefix)
  then have stable: "prefix (filter (\<lambda>e. snd e = p) (sortedContributions cs)) (filter (\<lambda>e. snd e = p) cs)"
    by (simp add: sortedContributions_def js_sort_stable)
  have "mset (sortedContributions cs @ drop 5 ?s) = mset cs"
    by (simp add: sortedContributions_def js_sort_sort_key flip: mset_append)
  moreover have "sorted_wrt (\<lambda>a b. snd a \<ge> snd b) (sortedContributions cs @ drop 5 ?s)"
    by (simp add: sortedContributions_def js_sort_descending)
  ultimately have perm: "\<exists>rest. mset (sortedContributions cs @ rest) = mset cs
         \<and> sorted_wrt (\<lambda>a b. snd a \<ge> snd b) (sortedContributions cs @ rest)"
    by blast
  have shown: "displayTopContributions (Some (c # cs))
       = Items (map contributionItem (sortedContributions (c # cs)))"
    by (simp add: displayTopContributions_def)
  have ex1: "sortedContributions [(''A'', 80), (''B'', 80), (''C'', 10)]
       = [(''A'', 80), (''B'', 80), (''C'', 10)]"
    by (simp add: sortedContributions_def js_sort_def)
  have ex2: "sortedContributions [(''B'', 80), (''A'', 80), (''C'', 10)]
       = [(''B'', 80), (''A'', 80), (''C'', 10)]"
    by (simp add: sortedContributions_def js_sort_def)
  show ?thesis
    using len desc stable perm shown ex1 ex2 by simp
qed

text \<open>
  C3 as stated fails: with the catalog order Power_On_Hours, Total_TBW_TB, ... and a
  contributions object that lists Total_TBW_TB before Power_On_Hours, both at 80, the
  ranking keeps Total_TBW_TB first, against the catalog's order.
\<close>

theorem ties_not_in_catalog_order_counterexample:
  "\<not> ties_in_catalog_order (map fst maxValues)
       (sortedContributions [(''Total_TBW_TB'', 80), (''Power_On_Hours'', 80), (''Temperature_C'', 10)])"
  by (simp add: sortedContributions_def js_sort_def ties_in_catalog_order_def maxValues_def)

text \<open>
  C8. For a missing contributions object and for an empty one the result is the
  "No data available" placeholder, and these are the only inputs that give it. The
  function has no failing branch.
\<close>

theorem displayTopContributions_empty:
  "displayTopContributions None = NoDataAvailable
   \<and> displayTopContributions (Some []) = NoDataAvailable
   \<and> (displayTopContributions cs = NoDataAvailable) = (cs = None \<or> cs = Some [])"
  by (cases cs) (simp_all add: displayTopContributions_def)

section \<open>Properties of the normalizer\<close>

lemma max_or_100_listed:
  "map_of maxValues f = Some m \<Longrightarrow> max_or_100 maxValues f = Fin m \<and> 0 < m"
  by (simp add: max_or_100_def maxValues_def split: if_splits)

lemma max_or_100_unlisted:
  "map_of table f = None \<Longrightarrow> f \<notin> set object_prototype_keys \<Longrightarrow> max_or_100 table f = Fin 100"
  by (simp add: max_or_100_def)

lemma max_or_100_inherited:
  "map_of table f = None \<Longrightarrow> f \<in> set object_prototype_keys \<Longrightarrow> max_or_100 table f = NaN"
  by (simp add: max_or_100_def)

lemma normalize_Fin:
  assumes "max_or_100 maxValues (featureNameAt fd i) = Fin m" and "0 < m"
  shows "normalizeFeatureValue fd (Fin v) i = Fin (min (v / m * 100) 100)"
  using assms by (simp add: normalizeFeatureValue_def)

lemma normalize_above:
  assumes "max_or_100 maxValues (featureNameAt fd i) = Fin m" and "0 < m" and "m \<le> v"
  shows "normalizeFeatureValue fd (Fin v) i = Fin 100"
proof -
  have "100 \<le> v / m * 100" using assms(2,3) by (simp add: field_simps)
  then show ?thesis using assms by (simp add: normalize_Fin min_def)
qed

lemma normalize_below:
  assumes "max_or_100 maxValues (featureNameAt fd i) = Fin m" and "0 < m" and "v < m"
  shows "normalizeFeatureValue fd (Fin v) i = Fin (v / m * 100)"
proof -
  have "v / m * 100 < 100" using assms(2,3) by (simp add: field_simps)
  then show ?thesis using assms by (simp add: normalize_Fin min_def)
qed

lemma featureNameAt_nth: "i < length fd \<Longrightarrow> featureNameAt fd i = fst (fd ! i)"
  by (simp add: featureNameAt_def)

text \<open>
  C4 at a failing input. The feature name \<^verbatim>\<open>constructor\<close> is not in the scale table, yet
  the default 100 is not used: the lookup finds the member inherited from
  \<^verbatim>\<open>Object.prototype\<close>, and both directions compute NaN. With the default, the value 50
  would be normalized to 50 and shown as 50.00.
\<close>

theorem inherited_key_not_defaulted:
  "map_of maxValues ''constructor'' = None
   \<and> normalizeFeatureValue [(''constructor'', Fin 1)] (Fin 50) 0 = NaN
   \<and> formatLabel ''constructor'' = ''Constructor''
   \<and> map_of maxValuesLower (labelToFeatureName ''Constructor'') = None
   \<and> getOriginalValueFromNormalized (Fin 50) ''Constructor'' = Plain NaN"
proof -
  have a: "map_of maxValues ''constructor'' = None" by (simp add: maxValues_def)
  have b: "normalizeFeatureValue [(''constructor'', Fin 1)] (Fin 50) 0 = NaN"
    by (simp add: normalizeFeatureValue_def featureNameAt_def max_or_100_def a
        object_prototype_keys_def)
  have c: "formatLabel ''constructor'' = ''Constructor''" by code_simp
  have k: "labelToFeatureName ''Constructor'' = ''constructor''" by code_simp
  have d: "map_of maxValuesLower (labelToFeatureName ''Constructor'') = None"
    by (simp add: k maxValuesLower_def)
  have e: "getOriginalValueFromNormalized (Fin 50) ''Constructor'' = Plain NaN"
    using d by (simp add: getOriginalValueFromNormalized_def max_or_100_def k
        object_prototype_keys_def)
  show ?thesis using a b c d e by blast
qed

subsection \<open>Labels and their keys\<close>

lemma replace_first_same: "replace_first p p s = s"
proof (induction s)
  case Nil
  then show ?case by simp
next
  case (Cons c cs)
  show ?case
  proof (cases "prefix p (c # cs)")
    case True
    then obtain zs where z: "c # cs = p @ zs" by (auto simp: prefix_def)
    have "replace_first p p (c # cs) = p @ drop (length p) (c # cs)"
      using True by simp
    also have "\<dots> = p @ zs" by (simp add: z)
    finally show ?thesis by (simp add: z)
  next
    case False
    then show ?thesis using Cons by simp
  qed
qed

lemma labelToFeatureName_plain:
  "labelToFeatureName l = map toLowerCase (squash_spaces (strip_celsius l))"
  by (simp add: labelToFeatureName_def replace_first_same)

lemma squash_spaces_no_space: "list_all (\<lambda>c. \<not> is_space c) (squash_spaces s)"
  by (induction s rule: squash_spaces.induct) (simp_all add: is_space_def)

lemma toLowerCase_canonical:
  "\<not> is_space c \<Longrightarrow> \<not> is_space (toLowerCase c) \<and> \<not> is_upper (toLowerCase c)"
  by (auto simp: toLowerCase_def is_space_def is_upper_def Let_def)

lemma labelToFeatureName_canonical:
  "list_all (\<lambda>c. \<not> is_space c \<and> \<not> is_upper c) (labelToFeatureName l)"
proof -
  have "list_all (\<lambda>c. \<not> is_space c \<and> \<not> is_upper c) (map toLowerCase xs)"
    if "list_all (\<lambda>c. \<not> is_space c) xs" for xs
    using that by (induction xs) (simp_all add: toLowerCase_canonical)
  then show ?thesis
    by (simp only: labelToFeatureName_plain squash_spaces_no_space)
qed

lemma catalog_keys:
  "labelToFeatureName (formatLabel ''Power_On_Hours'') = ''power_on_hours''"
  "labelToFeatureName (formatLabel ''Total_TBW_TB'') = ''total_tbw_tb''"
  "labelToFeatureName (formatLabel ''Total_TBR_TB'') = ''total_tbr_tb''"
  "labelToFeatureName (formatLabel ''Temperature_C'') = ''temperature_c''"
  "labelToFeatureName (formatLabel ''Percent_Life_Used'') = ''percent_life_used''"
  "labelToFeatureName (formatLabel ''Media_Errors'') = ''media_errors''"
  "labelToFeatureName (formatLabel ''Unsafe_Shutdowns'') = ''unsafe_shutdowns''"
  "labelToFeatureName (formatLabel ''CRC_Errors'') = ''crc_errors''"
  "labelToFeatureName (formatLabel ''Read_Error_Rate'') = ''read_error_rate''"
  "labelToFeatureName (formatLabel ''Write_Error_Rate'') = ''write_error_rate''"
  by code_simp+

lemma label_max_listed:
  assumes "map_of maxValues f = Some m"
  shows "max_or_100 maxValuesLower (labelToFeatureName (formatLabel f)) = Fin m"
proof -
  have "(f, m) \<in> set maxValues" using assms by (rule map_of_SomeD)
  then show ?thesis
    unfolding maxValues_def
    by (auto simp: catalog_keys max_or_100_def maxValuesLower_def)
qed

text \<open>
  C9. For each of the ten names of the scale table, the key recovered from the displayed
  label is the name in lower case, it is the key of the inverse table at the same place,
  and it selects the same maximum as the name does in normalization. The inverse makes no
  attempt to undo the abbreviation corrections (its two last replacements change nothing):
  for every label the key is the lower-case, underscore-joined form, free of white space
  and of upper-case letters.
\<close>

theorem label_roundtrip_catalog:
  "map (\<lambda>f. labelToFeatureName (formatLabel f)) (map fst maxValues)
     = map (map toLowerCase) (map fst maxValues)
   \<and> map (\<lambda>f. labelToFeatureName (formatLabel f)) (map fst maxValues) = map fst maxValuesLower
   \<and> map (\<lambda>f. max_or_100 maxValuesLower (labelToFeatureName (formatLabel f))) (map fst maxValues)
     = map (max_or_100 maxValues) (map fst maxValues)
   \<and> length (map fst maxValues) = 10
   \<and> labelToFeatureName l = map toLowerCase (squash_spaces (strip_celsius l))
   \<and> list_all (\<lambda>c. \<not> is_space c \<and> \<not> is_upper c) (labelToFeatureName l)"
proof -
  have names: "map fst maxValues =
      [''Power_On_Hours'', ''Total_TBW_TB'', ''Total_TBR_TB'', ''Temperature_C'',
       ''Percent_Life_Used'', ''Media_Errors'', ''Unsafe_Shutdowns'', ''CRC_Errors'',
       ''Read_Error_Rate'', ''Write_Error_Rate'']"
    by (simp add: maxValues_def)
  have lower: "map (map toLowerCase) (map fst maxValues) = map fst maxValuesLower"
    unfolding names by code_simp
  have keys: "map (\<lambda>f. labelToFeatureName (formatLabel f)) (map fst maxValues) = map fst maxValuesLower"
    unfolding names by (simp add: catalog_keys maxValuesLower_def)
  have maxes: "map (\<lambda>f. max_or_100 maxValuesLower (labelToFeatureName (formatLabel f))) (map fst maxValues)
     = map (max_or_100 maxValues) (map fst maxValues)"
  proof (rule map_cong [OF refl])
    fix f assume "f \<in> set (map fst maxValues)"
    then obtain m where "(f, m) \<in> set maxValues" by auto
    moreover have "distinct (map fst maxValues)" unfolding names by simp
    ultimately have m: "map_of maxValues f = Some m" by simp
    show "max_or_100 maxValuesLower (labelToFeatureName (formatLabel f)) = max_or_100 maxValues f"
      using label_max_listed [OF m] max_or_100_listed [OF m] by simp
  qed
  have len: "length (map fst maxValues) = 10" by (simp add: maxValues_def)
  show ?thesis
    using lower keys maxes len labelToFeatureName_plain [of l] labelToFeatureName_canonical [of l]
    by simp
qed

subsection \<open>The round trip\<close>

lemma toFixed_near:
  assumes "0 \<le> x" and "x < 10 ^ 21"
  shows "\<exists>n. toFixed 2 (Fin x) = Fixed False n 2 \<and> \<bar>real n / 100 - x\<bar> \<le> 1 / 200"
proof -
  define k where "k = \<lfloor>x * 100 + 1 / 2\<rfloor>"
  define r where "r = (of_int k :: real)"
  have lo: "r \<le> x * 100 + 1 / 2" unfolding r_def k_def by (rule of_int_floor_le)
  have hi: "x * 100 + 1 / 2 < r + 1" unfolding r_def k_def by linarith
  have "0 \<le> k" using assms(1) by (simp add: k_def)
  then have rn: "real (nat k) = r" by (simp add: r_def)
  have "r / 100 - x \<le> 1 / 200" using lo by linarith
  moreover have "x - r / 100 \<le> 1 / 200" using hi by linarith
  ultimately have "\<bar>r / 100 - x\<bar> \<le> 1 / 200"
    unfolding abs_le_iff by linarith
  then have "\<bar>real (nat k) / 100 - x\<bar> \<le> 1 / 200"
    by (simp only: rn)
  moreover have "toFixed 2 (Fin x) = Fixed False (nat k) 2" using assms by (simp add: k_def)
  ultimately show ?thesis by blast
qed

lemma listed_values:
  assumes "map_of maxValues f = Some m"
  shows "m \<le> 60000" and "toFixed 2 (Fin m) = Fixed False (nat \<lfloor>m * 100\<rfloor>) 2"
    and "real (nat \<lfloor>m * 100\<rfloor>) / 100 = m"
proof -
  have mem: "(f, m) \<in> set maxValues" using assms by (rule map_of_SomeD)
  show "m \<le> 60000" using mem unfolding maxValues_def by auto
  show "toFixed 2 (Fin m) = Fixed False (nat \<lfloor>m * 100\<rfloor>) 2"
    using mem unfolding maxValues_def by auto
  show "real (nat \<lfloor>m * 100\<rfloor>) / 100 = m"
    using mem unfolding maxValues_def by auto
qed

text \<open>
  C5. Let the feature at position \<open>i\<close> be a name of the scale table with maximum \<open>m\<close>.
  For \<open>0 \<le> v \<le> m\<close>, normalizing \<open>v\<close> and mapping the result back through the feature's
  label shows a two-decimal numeral within 0.005 of \<open>v\<close>. For \<open>v > m\<close> the round trip is
  lossy: the numeral shown is \<open>m\<close>.
\<close>

theorem denormalize_normalize_roundtrip:
  assumes "i < length fd" and "fst (fd ! i) = f" and "map_of maxValues f = Some m"
  shows "(0 \<le> v \<and> v \<le> m \<longrightarrow>
            (\<exists>n. getOriginalValueFromNormalized (normalizeFeatureValue fd (Fin v) i) (formatLabel f)
                   = Fixed False n 2
                 \<and> \<bar>real n / 100 - v\<bar> \<le> 1 / 200))
       \<and> (m < v \<longrightarrow>
            getOriginalValueFromNormalized (normalizeFeatureValue fd (Fin v) i) (formatLabel f)
              = Fixed False (nat \<lfloor>m * 100\<rfloor>) 2
            \<and> real (nat \<lfloor>m * 100\<rfloor>) / 100 = m)"
proof -
  have name: "featureNameAt fd i = f"
    using assms(1,2) by (simp add: featureNameAt_nth)
  have mx: "max_or_100 maxValues (featureNameAt fd i) = Fin m" and pos: "0 < m"
    using max_or_100_listed [OF assms(3)] name by simp_all
  have lower: "max_or_100 maxValuesLower (labelToFeatureName (formatLabel f)) = Fin m"
    using assms(3) by (rule label_max_listed)
  have inv: "getOriginalValueFromNormalized (Fin x) (formatLabel f) = toFixed 2 (Fin (x / 100 * m))"
    for x
    by (simp add: getOriginalValueFromNormalized_def lower)
  have within: "\<exists>n. getOriginalValueFromNormalized (normalizeFeatureValue fd (Fin v) i) (formatLabel f)
                   = Fixed False n 2 \<and> \<bar>real n / 100 - v\<bar> \<le> 1 / 200"
    if v: "0 \<le> v" "v \<le> m"
  proof -
    have "v / m * 100 \<le> 100" using pos v(2) by (simp add: field_simps)
    then have "normalizeFeatureValue fd (Fin v) i = Fin (v / m * 100)"
      using normalize_Fin [OF mx pos] by (simp add: min_def)
    moreover have "v / m * 100 / 100 * m = v" using pos by simp
    ultimately have "getOriginalValueFromNormalized (normalizeFeatureValue fd (Fin v) i) (formatLabel f)
        = toFixed 2 (Fin v)"
      by (simp only: inv)
    moreover have "v < 10 ^ 21"
      using v(2) listed_values(1) [OF assms(3)] by simp
    ultimately show ?thesis
      using toFixed_near [OF v(1)] by simp
  qed
  have above: "getOriginalValueFromNormalized (normalizeFeatureValue fd (Fin v) i) (formatLabel f)
      = Fixed False (nat \<lfloor>m * 100\<rfloor>) 2"
    if v: "m < v"
  proof -
    have "normalizeFeatureValue fd (Fin v) i = Fin 100"
      using normalize_above [OF mx pos] v by simp
    then have "getOriginalValueFromNormalized (normalizeFeatureValue fd (Fin v) i) (formatLabel f)
        = toFixed 2 (Fin (100 / 100 * m))"
      by (simp only: inv)
    also have "\<dots> = toFixed 2 (Fin m)"
      by (simp del: toFixed.simps)
    also have "\<dots> = Fixed False (nat \<lfloor>m * 100\<rfloor>) 2"
      by (rule listed_values(2) [OF assms(3)])
    finally show ?thesis .
  qed
  show ?thesis
    using within above listed_values(3) [OF assms(3)] by blast
qed

text \<open>
  C5 at Temperature_C (maximum 90): 47.5 comes back as 47.50, and 120 comes back as 90.00.
\<close>

theorem denormalize_normalize_roundtrip_witness:
  "getOriginalValueFromNormalized
      (normalizeFeatureValue
         [(''Power_On_Hours'', Fin 15000), (''Total_TBW_TB'', Fin 245.7),
          (''Total_TBR_TB'', Fin 198.3), (''Temperature_C'', Fin 47.5)] (Fin 47.5) 3)
      (formatLabel ''Temperature_C'') = Fixed False 4750 2
   \<and> getOriginalValueFromNormalized
      (normalizeFeatureValue
         [(''Power_On_Hours'', Fin 15000), (''Total_TBW_TB'', Fin 245.7),
          (''Total_TBR_TB'', Fin 198.3), (''Temperature_C'', Fin 47.5)] (Fin 120) 3)
      (formatLabel ''Temperature_C'') = Fixed False 9000 2"
proof -
  let ?fd = "[(''Power_On_Hours'', Fin 15000), (''Total_TBW_TB'', Fin 245.7),
              (''Total_TBR_TB'', Fin 198.3), (''Temperature_C'', Fin 47.5)]"
  have h1: "3 < length ?fd" by simp
  have h2: "fst (?fd ! 3) = ''Temperature_C''" by simp
  have h3: "map_of maxValues ''Temperature_C'' = Some 90" by (simp add: maxValues_def)
  note rt = denormalize_normalize_roundtrip [OF h1 h2 h3]
  have "(0::real) \<le> 47.5 \<and> (47.5::real) \<le> 90" by simp
  with rt [of "47.5"] obtain n where
    n: "getOriginalValueFromNormalized (normalizeFeatureValue ?fd (Fin 47.5) 3)
          (formatLabel ''Temperature_C'') = Fixed False n 2"
    and near: "\<bar>real n / 100 - 47.5\<bar> \<le> 1 / 200"
    by blast
  from near have "4749 < real n" "real n < 4751"
    unfolding abs_le_iff by linarith+
  then have "n = 4750" by linarith
  moreover have "(90::real) < 120" by simp
  with rt [of 120] have
    "getOriginalValueFromNormalized (normalizeFeatureValue ?fd (Fin 120) 3)
          (formatLabel ''Temperature_C'') = Fixed False (nat \<lfloor>(90::real) * 100\<rfloor>) 2"
    by blast
  moreover have "nat \<lfloor>(90::real) * 100\<rfloor> = 9000" by simp
  ultimately show ?thesis using n by simp
qed

section \<open>Properties of input validation\<close>

lemma update_fresh: "k \<notin> fst ` set al \<Longrightarrow> AList.update k v al = al @ [(k, v)]"
  by (induction al) auto

lemma collect_fold_distinct:
  "distinct (map fst acc @ map fst xs) \<Longrightarrow>
   fold (\<lambda>(ident, v) inputs. AList.update ident (if isNaN v then Fin 0 else v) inputs) xs acc
     = acc @ map (\<lambda>(ident, v). (ident, if isNaN v then Fin 0 else v)) xs"
proof (induction xs arbitrary: acc)
  case Nil
  then show ?case by simp
next
  case (Cons x xs)
  obtain k v where x: "x = (k, v)" by (cases x)
  have fresh: "k \<notin> fst ` set acc" using Cons.prems by (auto simp: x)
  have "distinct (map fst (acc @ [(k, if isNaN v then Fin 0 else v)]) @ map fst xs)"
    using Cons.prems by (auto simp: x)
  from Cons.IH [OF this] show ?case
    by (simp add: x update_fresh [OF fresh])
qed

lemma collectInputData_distinct:
  "distinct (map fst xs) \<Longrightarrow>
   collectInputData xs = map (\<lambda>(ident, v). (ident, if isNaN v then Fin 0 else v)) xs"
  using collect_fold_distinct [of "[]" xs] by (simp add: collectInputData_def)

lemma set_update_subset: "set (AList.update k v al) \<subseteq> insert (k, v) (set al)"
  by (induction al) auto

lemma fold_update_values:
  "snd ` set (fold (\<lambda>(k, v) al. AList.update k (h v) al) xs acc)
     \<subseteq> snd ` set acc \<union> h ` snd ` set xs"
proof (induction xs arbitrary: acc)
  case Nil
  then show ?case by simp
next
  case (Cons x xs)
  obtain k v where x: "x = (k, v)" by (cases x)
  have "snd ` set (AList.update k (h v) acc) \<subseteq> insert (h v) (snd ` set acc)"
    using set_update_subset [of k "h v" acc] by force
  with Cons.IH [of "AList.update k (h v) acc"] show ?case
    by (auto simp: x)
qed

lemma collectInputData_values:
  "snd ` set (collectInputData xs) \<subseteq> (\<lambda>v. if isNaN v then Fin 0 else v) ` snd ` set xs"
  using fold_update_values [of "\<lambda>v. if isNaN v then Fin 0 else v" xs "[]"]
  by (simp add: collectInputData_def)

lemma validateInputs_iff: "validateInputs d = (\<forall>v \<in> snd ` set d. isFinite v)"
proof -
  have "(\<not> isNaN v \<and> isFinite v) = isFinite v" for v by (cases v) simp_all
  then show ?thesis by (simp add: validateInputs_def list_all_iff)
qed

lemma predict_unfold:
  "predictAllFailures fd th service xs charts =
     (if \<not> validateInputs (collectInputData xs) then Inl InvalidInputs
      else case service (tempThresholdPayload th (collectInputData xs)) of
             None \<Rightarrow> Inl PredictionFailed
           | Some r \<Rightarrow> Inr (displayResults fd r (collectInputData xs) charts))"
  by (simp add: predictAllFailures_def Let_def)

text \<open>
  C2 (as the code has it). When the input fields have distinct ids and the text of one
  parses to an infinity, the pipeline stops with the validation error, whatever the
  backend would answer: no request, no normalization. A field whose text is not numeric
  (it parses to NaN) is taken as 0 by \<^verbatim>\<open>collectInputData\<close>; a snapshot whose values are
  each non-numeric or finite and non-negative passes validation and the pipeline runs on
  the collected values, all finite and non-negative. Whenever the pipeline gets past
  validation, every collected value is finite.
\<close>

theorem predictAllFailures_validation:
  "(distinct (map fst xs) \<and> (\<exists>v \<in> snd ` set xs. v = PosInf \<or> v = NegInf)
      \<longrightarrow> predictAllFailures fd th service xs charts = Inl InvalidInputs)
   \<and> ((\<forall>v \<in> snd ` set xs. v = NaN \<or> (\<exists>x. 0 \<le> x \<and> v = Fin x))
      \<longrightarrow> validateInputs (collectInputData xs)
        \<and> (\<forall>v \<in> snd ` set (collectInputData xs). \<exists>x. 0 \<le> x \<and> v = Fin x)
        \<and> predictAllFailures fd th service xs charts =
            (case service (tempThresholdPayload th (collectInputData xs)) of
               None \<Rightarrow> Inl PredictionFailed
             | Some r \<Rightarrow> Inr (displayResults fd r (collectInputData xs) charts)))
   \<and> (predictAllFailures fd th service xs charts \<noteq> Inl InvalidInputs
      \<longrightarrow> (\<forall>v \<in> snd ` set (collectInputData xs). \<exists>x. v = Fin x))"
proof (intro conjI impI)
  assume a: "distinct (map fst xs) \<and> (\<exists>v \<in> snd ` set xs. v = PosInf \<or> v = NegInf)"
  then obtain v where v: "v \<in> snd ` set xs" "v = PosInf \<or> v = NegInf" by blast
  have "collectInputData xs = map (\<lambda>(ident, v). (ident, if isNaN v then Fin 0 else v)) xs"
    using a by (simp add: collectInputData_distinct)
  then have "map snd (collectInputData xs) = map (\<lambda>v. if isNaN v then Fin 0 else v) (map snd xs)"
    by (simp add: case_prod_unfold)
  then have img: "snd ` set (collectInputData xs) = (\<lambda>v. if isNaN v then Fin 0 else v) ` snd ` set xs"
    by (metis list.set_map)
  have same: "(if isNaN v then Fin 0 else v) = v" using v(2) by auto
  have "(if isNaN v then Fin 0 else v) \<in> snd ` set (collectInputData xs)"
    unfolding img using v(1) by (rule imageI)
  then have "v \<in> snd ` set (collectInputData xs)" by (simp only: same)
  moreover have "\<not> isFinite v" using v(2) by auto
  ultimately have "\<not> validateInputs (collectInputData xs)"
    unfolding validateInputs_iff by blast
  then show "predictAllFailures fd th service xs charts = Inl InvalidInputs"
    by (simp add: predict_unfold)
next
  assume a: "\<forall>v \<in> snd ` set xs. v = NaN \<or> (\<exists>x. 0 \<le> x \<and> v = Fin x)"
  show nn: "\<forall>v \<in> snd ` set (collectInputData xs). \<exists>x. 0 \<le> x \<and> v = Fin x"
  proof
    fix w assume "w \<in> snd ` set (collectInputData xs)"
    then obtain v where v: "v \<in> snd ` set xs" "w = (if isNaN v then Fin 0 else v)"
      using collectInputData_values [of xs] by blast
    from a v(1) have "v = NaN \<or> (\<exists>x. 0 \<le> x \<and> v = Fin x)" by (rule bspec)
    then show "\<exists>x. 0 \<le> x \<and> w = Fin x"
    proof
      assume "v = NaN"
      then have "w = Fin 0" using v(2) by simp
      then show ?thesis by simp
    next
      assume "\<exists>x. 0 \<le> x \<and> v = Fin x"
      then obtain x where "0 \<le> x" "v = Fin x" by blast
      then have "0 \<le> x \<and> w = Fin x" using v(2) by simp
      then show ?thesis by (rule exI)
    qed
  qed
  have "isFinite v" if "v \<in> snd ` set (collectInputData xs)" for v
  proof -
    from nn that obtain x where "v = Fin x" by blast
    then show ?thesis by simp
  qed
  then show ok: "validateInputs (collectInputData xs)"
    unfolding validateInputs_iff by (rule ballI)
  show "predictAllFailures fd th service xs charts =
            (case service (tempThresholdPayload th (collectInputData xs)) of
               None \<Rightarrow> Inl PredictionFailed
             | Some r \<Rightarrow> Inr (displayResults fd r (collectInputData xs) charts))"
    using ok by (simp only: predict_unfold not_True_eq_False if_False)
next
  assume run: "predictAllFailures fd th service xs charts \<noteq> Inl InvalidInputs"
  have ok: "validateInputs (collectInputData xs)"
  proof (rule ccontr)
    assume "\<not> validateInputs (collectInputData xs)"
    then have "predictAllFailures fd th service xs charts = Inl InvalidInputs"
      by (simp add: predict_unfold)
    with run show False by contradiction
  qed
  show "\<forall>v \<in> snd ` set (collectInputData xs). \<exists>x. v = Fin x"
  proof
    fix v assume "v \<in> snd ` set (collectInputData xs)"
    with ok have "isFinite v" unfolding validateInputs_iff by blast
    then show "\<exists>x. v = Fin x" by (cases v) simp_all
  qed
qed

text \<open>
  C2 at two snapshots: one with an infinite temperature is refused; one with a
  non-numeric temperature is collected as 0, passes validation and reaches the request.
\<close>

theorem predictAllFailures_validation_witness:
  "predictAllFailures [] None (\<lambda>payload. None)
      [(''Power_On_Hours'', Fin 15000), (''Temperature_C'', PosInf)] [] = Inl InvalidInputs
   \<and> validateInputs (collectInputData [(''Power_On_Hours'', Fin 15000), (''Temperature_C'', NaN)])
   \<and> predictAllFailures [] None (\<lambda>payload. None)
      [(''Power_On_Hours'', Fin 15000), (''Temperature_C'', NaN)] [] = Inl PredictionFailed
   \<and> collectInputData [(''Power_On_Hours'', Fin 15000), (''Temperature_C'', NaN)]
      = [(''Power_On_Hours'', Fin 15000), (''Temperature_C'', Fin 0)]"
proof -
  let ?bad = "[(''Power_On_Hours'', Fin 15000), (''Temperature_C'', PosInf)]"
  let ?ok = "[(''Power_On_Hours'', Fin 15000), (''Temperature_C'', NaN)]"
  have h1: "distinct (map fst ?bad) \<and> (\<exists>v \<in> snd ` set ?bad. v = PosInf \<or> v = NegInf)"
    by simp
  have h2: "\<forall>v \<in> snd ` set ?ok. v = NaN \<or> (\<exists>x. 0 \<le> x \<and> v = Fin x)"
    by simp
  have a: "predictAllFailures [] None (\<lambda>payload. None) ?bad [] = Inl InvalidInputs"
    using predictAllFailures_validation [of ?bad "[]" None "\<lambda>payload. None" "[]"] h1 by blast
  have b: "validateInputs (collectInputData ?ok)"
    and c: "predictAllFailures [] None (\<lambda>payload. None) ?ok [] = Inl PredictionFailed"
    using predictAllFailures_validation [of ?ok "[]" None "\<lambda>payload. None" "[]"] h2 by simp_all
  have d: "collectInputData ?ok = [(''Power_On_Hours'', Fin 15000), (''Temperature_C'', Fin 0)]"
    by (simp add: collectInputData_def)
  show ?thesis using a b c d by blast
qed

text \<open>
  C2 as stated fails: a snapshot with a non-numeric field is not refused.
\<close>

theorem nonnumeric_field_accepted_counterexample:
  "collectInputData [(''Power_On_Hours'', Fin 15000), (''Temperature_C'', NaN)]
     = [(''Power_On_Hours'', Fin 15000), (''Temperature_C'', Fin 0)]
   \<and> validateInputs (collectInputData [(''Power_On_Hours'', Fin 15000), (''Temperature_C'', NaN)])
   \<and> predictAllFailures [] None (\<lambda>payload. None)
        [(''Power_On_Hours'', Fin 15000), (''Temperature_C'', NaN)] [] \<noteq> Inl InvalidInputs"
  by (simp add: predict_unfold collectInputData_def validateInputs_def)

section \<open>Properties of the radar charts\<close>

lemma normalize_index_0:
  assumes "fd \<noteq> []" and "fst (hd fd) = ''Power_On_Hours''"
  shows "normalizeFeatureValue fd v 0 = math_min (js_mul (js_div v (Fin 60000)) (Fin 100)) (Fin 100)"
proof -
  have "featureNameAt fd 0 = ''Power_On_Hours''"
    using assms by (simp add: featureNameAt_def hd_conv_nth)
  moreover have "max_or_100 maxValues ''Power_On_Hours'' = Fin 60000"
    by (simp add: max_or_100_def maxValues_def)
  ultimately show ?thesis by (simp add: normalizeFeatureValue_def)
qed

lemma fold_init_lookup:
  "map_of (fold (\<lambda>ident charts. if \<not> present ident then charts else AList.update ident c charts)
                ids charts) k
     = (if k \<in> set ids \<and> present k then Some c else map_of charts k)"
  by (induction ids arbitrary: charts) (auto simp: update_conv')

lemma initializeRadarCharts_lookup:
  "map_of (initializeRadarCharts present fd charts) k
     = (if k \<in> set chartIds \<and> present k
        then Some \<lparr>chart_labels = map formatLabel (map fst fd),
                   chart_data = map (\<lambda>v. normalizeFeatureValue fd v 0) (map snd fd)\<rparr>
        else map_of charts k)"
  unfolding initializeRadarCharts_def by (rule fold_init_lookup)

lemma fold_reset_lookup:
  "map_of (fold (\<lambda>t charts. case map_of charts (t @ sfx) of
                               None \<Rightarrow> charts
                             | Some ch \<Rightarrow> AList.update (t @ sfx) (ch\<lparr>chart_data := d\<rparr>) charts)
                ts charts) k
     = (if k \<in> (\<lambda>t. t @ sfx) ` set ts
        then map_option (\<lambda>ch. ch\<lparr>chart_data := d\<rparr>) (map_of charts k)
        else map_of charts k)"
proof (induction ts arbitrary: charts)
  case Nil
  then show ?case by simp
next
  case (Cons t ts)
  show ?case
  proof (cases "map_of charts (t @ sfx)")
    case None
    then show ?thesis using Cons.IH [of charts] by auto
  next
    case (Some ch)
    then show ?thesis
      using Cons.IH [of "AList.update (t @ sfx) (ch\<lparr>chart_data := d\<rparr>) charts"]
      by (auto simp: update_conv')
  qed
qed

lemma resetForm_lookup:
  "map_of (resetForm fd charts) k
     = (if k \<in> (\<lambda>t. t @ ''Radar'') ` set modelTypes
        then map_option (\<lambda>ch. ch\<lparr>chart_data := map (\<lambda>v. normalizeFeatureValue fd v 0) (map snd fd)\<rparr>)
               (map_of charts k)
        else map_of charts k)"
  unfolding resetForm_def by (rule fold_reset_lookup)

lemma updateRadarChart_data:
  assumes "map_of charts (t @ ''Radar'') = Some ch"
  shows "map_option chart_data (map_of (updateRadarChart fd t inputData charts) (t @ ''Radar''))
     = Some (map (\<lambda>i. normalizeFeatureValue fd (snd (inputData ! i)) i) [0 ..< length inputData])"
proof -
  have "map (\<lambda>(v, index). normalizeFeatureValue fd v index)
          (zip (map snd inputData) [0 ..< length inputData])
        = map (\<lambda>i. normalizeFeatureValue fd (snd (inputData ! i)) i) [0 ..< length inputData]"
    by (rule nth_equalityI) simp_all
  then show ?thesis
    using assms by (simp add: updateRadarChart_def update_conv')
qed

text \<open>
  C10. Let Power_On_Hours be the first feature of the defaults. Every chart that
  \<^verbatim>\<open>initializeRadarCharts\<close> creates, and every existing chart that \<^verbatim>\<open>resetForm\<close> resets,
  holds each default value scaled against 60000, the maximum of Power_On_Hours, whatever
  feature the value belongs to. Only \<^verbatim>\<open>updateRadarChart\<close> normalizes the value at position
  \<open>i\<close> with the index \<open>i\<close>.
\<close>

theorem defaults_normalized_with_index_0:
  assumes "fd \<noteq> []" and "fst (hd fd) = ''Power_On_Hours''"
  shows "(cid \<in> set chartIds \<and> present cid \<longrightarrow>
            map_option chart_data (map_of (initializeRadarCharts present fd charts) cid)
              = Some (map (\<lambda>v. math_min (js_mul (js_div v (Fin 60000)) (Fin 100)) (Fin 100))
                        (map snd fd)))
       \<and> (t \<in> set modelTypes \<and> map_of charts (t @ ''Radar'') \<noteq> None \<longrightarrow>
            map_option chart_data (map_of (resetForm fd charts) (t @ ''Radar''))
              = Some (map (\<lambda>v. math_min (js_mul (js_div v (Fin 60000)) (Fin 100)) (Fin 100))
                        (map snd fd)))
       \<and> (map_of charts (t @ ''Radar'') \<noteq> None \<longrightarrow>
            map_option chart_data (map_of (updateRadarChart fd t inputData charts) (t @ ''Radar''))
              = Some (map (\<lambda>i. normalizeFeatureValue fd (snd (inputData ! i)) i)
                        [0 ..< length inputData]))"
proof -
  have n0: "(\<lambda>v. normalizeFeatureValue fd v 0)
      = (\<lambda>v. math_min (js_mul (js_div v (Fin 60000)) (Fin 100)) (Fin 100))"
    using normalize_index_0 [OF assms] by (rule ext)
  have a: "map_option chart_data (map_of (initializeRadarCharts present fd charts) cid)
              = Some (map (\<lambda>v. math_min (js_mul (js_div v (Fin 60000)) (Fin 100)) (Fin 100))
                        (map snd fd))"
    if "cid \<in> set chartIds \<and> present cid"
    using that by (simp add: initializeRadarCharts_lookup n0)
  have b: "map_option chart_data (map_of (resetForm fd charts) (t @ ''Radar''))
              = Some (map (\<lambda>v. math_min (js_mul (js_div v (Fin 60000)) (Fin 100)) (Fin 100))
                        (map snd fd))"
    if "t \<in> set modelTypes \<and> map_of charts (t @ ''Radar'') \<noteq> None"
    using that by (auto simp: resetForm_lookup n0)
  have c: "map_option chart_data (map_of (updateRadarChart fd t inputData charts) (t @ ''Radar''))
              = Some (map (\<lambda>i. normalizeFeatureValue fd (snd (inputData ! i)) i)
                        [0 ..< length inputData])"
    if "map_of charts (t @ ''Radar'') \<noteq> None"
    using that updateRadarChart_data by blast
  show ?thesis using a b c by blast
qed

text \<open>
  C10 at the defaults Power_On_Hours = 15000, Temperature_C = 45: the charts start and
  are reset with 25 and 0.075 (45 against 60000); after a prediction on the same values
  they hold 25 and 50 (45 against 90).
\<close>

theorem defaults_normalized_with_index_0_witness:
  "map_option chart_data
     (map_of (initializeRadarCharts (\<lambda>c. True)
        [(''Power_On_Hours'', Fin 15000), (''Temperature_C'', Fin 45)] []) ''thermalRadar'')
     = Some [Fin 25, Fin (3 / 40)]
   \<and> map_option chart_data
     (map_of (resetForm [(''Power_On_Hours'', Fin 15000), (''Temperature_C'', Fin 45)]
        [(''thermalRadar'', \<lparr>chart_labels = [], chart_data = []\<rparr>)]) ''thermalRadar'')
     = Some [Fin 25, Fin (3 / 40)]
   \<and> map_option chart_data
     (map_of (updateRadarChart [(''Power_On_Hours'', Fin 15000), (''Temperature_C'', Fin 45)]
        ''thermal'' [(''Power_On_Hours'', Fin 15000), (''Temperature_C'', Fin 45)]
        [(''thermalRadar'', \<lparr>chart_labels = [], chart_data = []\<rparr>)]) ''thermalRadar'')
     = Some [Fin 25, Fin 50]"
proof -
  let ?fd = "[(''Power_On_Hours'', Fin 15000), (''Temperature_C'', Fin 45)]"
  let ?charts = "[(''thermalRadar'', \<lparr>chart_labels = [], chart_data = []\<rparr>)]"
  have h1: "?fd \<noteq> []" by simp
  have h2: "fst (hd ?fd) = ''Power_On_Hours''" by simp
  have h3: "''thermalRadar'' \<in> set chartIds \<and> (\<lambda>c. True) ''thermalRadar''"
    by (simp add: chartIds_def)
  have h4: "''thermal'' \<in> set modelTypes \<and> map_of ?charts (''thermal'' @ ''Radar'') \<noteq> None"
    by (simp add: modelTypes_def)
  have h5: "map_of ?charts (''thermal'' @ ''Radar'') \<noteq> None" by simp
  have n1: "normalizeFeatureValue ?fd (Fin 45) 1 = Fin 50"
    by (simp add: normalizeFeatureValue_def featureNameAt_def max_or_100_def maxValues_def)
  have n0: "normalizeFeatureValue ?fd (Fin 15000) 0 = Fin 25"
    by (simp add: normalizeFeatureValue_def featureNameAt_def max_or_100_def maxValues_def)
  have up: "[0 ..< length ?fd] = [0, 1]" by (simp add: upt_rec)
  note th = defaults_normalized_with_index_0 [OF h1 h2]
  have a: "map_option chart_data (map_of (initializeRadarCharts (\<lambda>c. True) ?fd []) ''thermalRadar'')
     = Some [Fin 25, Fin (3 / 40)]"
    using th [of "''thermalRadar''" "\<lambda>c. True" "[]" "''thermal''" "[]"] h3 by simp
  have b: "map_option chart_data (map_of (resetForm ?fd ?charts) ''thermalRadar'')
     = Some [Fin 25, Fin (3 / 40)]"
    using th [of "''thermalRadar''" "\<lambda>c. True" ?charts "''thermal''" "[]"] h4 by simp
  have c: "map_option chart_data (map_of (updateRadarChart ?fd ''thermal'' ?fd ?charts) ''thermalRadar'')
     = Some [Fin 25, Fin 50]"
  proof -
    have "map (\<lambda>i. normalizeFeatureValue ?fd (snd (?fd ! i)) i) [0 ..< length ?fd]
        = map (\<lambda>i. normalizeFeatureValue ?fd (snd (?fd ! i)) i) [0, 1]"
      by (simp only: up)
    also have "\<dots> = [normalizeFeatureValue ?fd (Fin 15000) 0, normalizeFeatureValue ?fd (Fin 45) 1]"
      by simp
    finally have own: "map (\<lambda>i. normalizeFeatureValue ?fd (snd (?fd ! i)) i) [0 ..< length ?fd]
        = [Fin 25, Fin 50]"
      by (simp only: n0 n1)
    have "map_option chart_data (map_of (updateRadarChart ?fd ''thermal'' ?fd ?charts) (''thermal'' @ ''Radar''))
        = Some (map (\<lambda>i. normalizeFeatureValue ?fd (snd (?fd ! i)) i) [0 ..< length ?fd])"
      using th [of "''thermalRadar''" "\<lambda>c. True" ?charts "''thermal''" ?fd] h5 by blast
    then show ?thesis
      unfolding own by simp
  qed
  show ?thesis using a b c by blast
qed

end
